theory Spec2Isabelle
  imports Complex_Main
begin

section \<open>NumPy arrays\<close>

text \<open>
  An array is its shape together with its elements in row-major (C) order, which is how
  NumPy stores a freshly built array and how \<^verbatim>\<open>reshape\<close> reads one. The element type
  is left open where a function only moves elements around. Losses and parameters are
  real numbers, without floating-point rounding; the arithmetic of the determinant routine
  is a parameter.
\<close>

record 'a ndarray =
  shape :: "nat list"
  flat :: "'a list"

definition wf_array :: "'a ndarray \<Rightarrow> bool" where
  "wf_array a \<longleftrightarrow> length (flat a) = prod_list (shape a)"

text \<open>The exceptions that the functions of \<^verbatim>\<open>pretrain.py\<close> and the library calls they
  make can raise.\<close>

datatype error =
    InputTypeError   \<comment> \<open>\<^verbatim>\<open>ValueError('Input must be either NumPy or JAX array.')\<close>\<close>
  | AttributeError   \<comment> \<open>an attribute such as \<^verbatim>\<open>.shape\<close> is missing\<close>
  | ReshapeError     \<comment> \<open>\<^verbatim>\<open>ValueError: cannot reshape array of size ... into shape ...\<close>\<close>
  | IndexError       \<comment> \<open>too many indices for the array\<close>
  | ConcatError      \<comment> \<open>\<^verbatim>\<open>concatenate\<close>: the shapes disagree off the joined axis\<close>
  | LinAlgError      \<comment> \<open>the last two dimensions are not square\<close>
  | BroadcastError   \<comment> \<open>operands could not be broadcast together\<close>
  | OtherError       \<comment> \<open>an exception of another kind raised inside \<^verbatim>\<open>pos.copy()\<close>\<close>
  | PmapError        \<comment> \<open>\<^verbatim>\<open>pmap\<close>: the mapped arguments disagree on the number of workers, or there is none\<close>

text \<open>
  \<^verbatim>\<open>np.reshape(a, newshape)\<close>. A negative entry of \<^verbatim>\<open>newshape\<close> is the dimension to be
  inferred; NumPy infers it as \<^verbatim>\<open>size / known\<close> and refuses when the known dimensions
  multiply to zero or do not divide the size. The elements keep their order.
\<close>

definition np_reshape :: "'a ndarray \<Rightarrow> int list \<Rightarrow> error + 'a ndarray" where
  "np_reshape a newshape =
     (let s_original = prod_list (shape a);
          s_known = prod_list (map nat (filter (\<lambda>d. 0 \<le> d) newshape));
          unknowns = length (filter (\<lambda>d. d < 0) newshape)
      in if 1 < unknowns then Inl ReshapeError
         else if unknowns = 1 then
           (if s_known = 0 \<or> s_original mod s_known \<noteq> 0 then Inl ReshapeError
            else Inr \<lparr>shape = map (\<lambda>d. if d < 0 then s_original div s_known else nat d) newshape,
                      flat = flat a\<rparr>)
         else if s_original \<noteq> s_known then Inl ReshapeError
         else Inr \<lparr>shape = map nat newshape, flat = flat a\<rparr>)"

text \<open>
  \<^verbatim>\<open>a[..., start:stop, :ncol]\<close>: a slice of the last two axes, every leading index kept.
  Python clamps slice bounds to the axis length; \<open>stop = None\<close> is an open end.
  With fewer than two axes NumPy raises \<^verbatim>\<open>IndexError\<close>.
\<close>

definition slice_last2 :: "nat \<Rightarrow> nat option \<Rightarrow> nat \<Rightarrow> 'a ndarray \<Rightarrow> error + 'a ndarray" where
  "slice_last2 start stop ncol a =
     (if length (shape a) < 2 then Inl IndexError
      else
        let lead = butlast (butlast (shape a));
            R = last (butlast (shape a));
            C = last (shape a);
            lo = min start R;
            hi = (case stop of None \<Rightarrow> R | Some s \<Rightarrow> min s R);
            nr = hi - lo;
            nc = min ncol C
        in Inr \<lparr>shape = lead @ [nr, nc],
                 flat = concat (map (\<lambda>k. concat (map (\<lambda>i. take nc (drop ((k * R + lo + i) * C) (flat a)))
                                                       [0..<nr]))
                                    [0..<prod_list lead])\<rparr>)"

text \<open>Element \<open>(k, i, j)\<close> of an array whose last two axes are a matrix, \<open>k\<close> being the
  row-major index into the leading axes; and element \<open>(r, c)\<close> of a two-dimensional array.\<close>

definition at3 :: "'a ndarray \<Rightarrow> nat \<Rightarrow> nat \<Rightarrow> nat \<Rightarrow> 'a" where
  "at3 a k i j = flat a ! ((k * last (butlast (shape a)) + i) * last (shape a) + j)"


section \<open>The reference evaluator\<close>

text \<open>
  What \<^verbatim>\<open>eval_orbitals\<close> may be handed as \<^verbatim>\<open>pos\<close>. The function looks at three things
  only: whether the value is an instance of \<^verbatim>\<open>np.ndarray\<close>, what calling \<^verbatim>\<open>pos.copy()\<close>
  does, and whether the value it goes on with has the attributes of an array.

  Calling \<^verbatim>\<open>pos.copy()\<close> raises \<^verbatim>\<open>AttributeError\<close> (the attribute is missing, or the error
  comes from inside the call: the \<^verbatim>\<open>except\<close> clause of line 80 cannot tell them apart),
  raises another exception, or returns an object.

  Besides NumPy arrays, JAX arrays (not instances of \<^verbatim>\<open>np.ndarray\<close>, their copy is an
  array), Python lists (their copy is a list again, which has no \<^verbatim>\<open>.shape\<close>), floats and
  \<^verbatim>\<open>None\<close> (neither has a \<^verbatim>\<open>copy\<close> attribute), \<open>PyObject\<close> is any other object, given by its
  array content, if it has the attributes of an array, and by what its \<^verbatim>\<open>copy()\<close> does.
\<close>

datatype 'a pyobj =
    NdArray "'a ndarray"
  | JaxArray "'a ndarray"
  | PyList "'a list"
  | PyFloat 'a
  | PyNone
  | PyObject "'a ndarray option" "'a copy_outcome"
and 'a copy_outcome =
    CopyRaisesAttributeError
  | CopyRaisesOther
  | CopyReturns "'a pyobj"

text \<open>\<^verbatim>\<open>isinstance(pos, np.ndarray)\<close>, and what \<^verbatim>\<open>pos.copy()\<close> does.\<close>

fun isinstance_ndarray :: "'a pyobj \<Rightarrow> bool" where
  "isinstance_ndarray (NdArray a) = True"
| "isinstance_ndarray _ = False"

fun py_copy :: "'a pyobj \<Rightarrow> 'a copy_outcome" where
  "py_copy (NdArray a) = CopyReturns (NdArray a)"
| "py_copy (JaxArray a) = CopyReturns (JaxArray a)"
| "py_copy (PyList xs) = CopyReturns (PyList xs)"
| "py_copy (PyFloat x) = CopyRaisesAttributeError"
| "py_copy PyNone = CopyRaisesAttributeError"
| "py_copy (PyObject content outcome) = outcome"

text \<open>Lines 77 to 81: the object bound to \<^verbatim>\<open>pos\<close> after the \<^verbatim>\<open>isinstance\<close> test and the
  guarded copy. Only \<^verbatim>\<open>AttributeError\<close> is turned into the \<^verbatim>\<open>ValueError\<close> of line 81; any
  other exception of \<^verbatim>\<open>copy()\<close> passes through.\<close>

definition copy_unless_ndarray :: "'a pyobj \<Rightarrow> error + 'a pyobj" where
  "copy_unless_ndarray pos =
     (if \<not> isinstance_ndarray pos then
        (case py_copy pos of
           CopyRaisesAttributeError \<Rightarrow> Inl InputTypeError
         | CopyRaisesOther \<Rightarrow> Inl OtherError
         | CopyReturns c \<Rightarrow> Inr c)
      else Inr pos)"

text \<open>Line 82 reads \<^verbatim>\<open>pos.shape\<close>, which only an object with the attributes of an array
  has.\<close>

fun array_of :: "'a pyobj \<Rightarrow> error + 'a ndarray" where
  "array_of (NdArray a) = Inr a"
| "array_of (JaxArray a) = Inr a"
| "array_of (PyObject (Some a) outcome) = Inr a"
| "array_of _ = Inl AttributeError"

text \<open>
  \<^verbatim>\<open>eval_orbitals(scf_approx, pos, spins)\<close>. The method \<^verbatim>\<open>scf_approx.eval_mos\<close> lives in
  \<^verbatim>\<open>ferminet/utils/scf.py\<close> and is a parameter here: it takes the \<open>(N, 3)\<close> array of
  points and returns the molecular-orbital values of the two spin channels.
\<close>

definition eval_orbitals ::
  "('a ndarray \<Rightarrow> 'b ndarray \<times> 'b ndarray) \<Rightarrow> 'a pyobj \<Rightarrow> nat \<times> nat
     \<Rightarrow> error + ('b ndarray \<times> 'b ndarray)" where
  "eval_orbitals eval_mos pos spins =
     (case copy_unless_ndarray pos of Inl e \<Rightarrow> Inl e | Inr pos1 \<Rightarrow>
      case array_of pos1 of Inl e \<Rightarrow> Inl e | Inr a \<Rightarrow>
      let leading_dims = butlast (shape a) in
      case np_reshape a [-1, 3] of Inl e \<Rightarrow> Inl e | Inr pts \<Rightarrow>
      let mos = eval_mos pts;
          newshape = map int leading_dims @ [int (fst spins + snd spins), -1] in
      case np_reshape (fst mos) newshape of Inl e \<Rightarrow> Inl e | Inr mo0 \<Rightarrow>
      case np_reshape (snd mos) newshape of Inl e \<Rightarrow> Inl e | Inr mo1 \<Rightarrow>
      case slice_last2 0 (Some (fst spins)) (fst spins) mo0 of Inl e \<Rightarrow> Inl e | Inr alpha_spin \<Rightarrow>
      case slice_last2 (fst spins) None (snd spins) mo1 of Inl e \<Rightarrow> Inl e | Inr beta_spin \<Rightarrow>
      Inr (alpha_spin, beta_spin))"

text \<open>The rows of an \<open>(N, 3)\<close> array: the points at which the orbitals are evaluated.\<close>

definition points :: "'a ndarray \<Rightarrow> 'a list list" where
  "points pts = map (\<lambda>q. take 3 (drop (q * 3) (flat pts))) [0..<hd (shape pts)]"

text \<open>
  Modelled from the spec: \<^verbatim>\<open>scf.Scf.eval_mos\<close> is defined in \<^verbatim>\<open>ferminet/utils/scf.py\<close>,
  which is not among the sources. The spec has it "evaluate all basis-function molecular
  orbitals at each point": the row of each output for a point depends on that point only.
  \<open>phi_up\<close> and \<open>phi_down\<close> give the \<open>nbasis\<close> orbital values of the two spin channels at a
  point; the result is the pair of \<open>(N, nbasis)\<close> arrays.
\<close>

definition pointwise_mos ::
  "nat \<Rightarrow> ('a list \<Rightarrow> 'b list) \<Rightarrow> ('a list \<Rightarrow> 'b list) \<Rightarrow> 'a ndarray \<Rightarrow> 'b ndarray \<times> 'b ndarray" where
  "pointwise_mos nbasis phi_up phi_down pts =
     (\<lparr>shape = [hd (shape pts), nbasis], flat = concat (map phi_up (points pts))\<rparr>,
      \<lparr>shape = [hd (shape pts), nbasis], flat = concat (map phi_down (points pts))\<rparr>)"

subsection \<open>The Slater determinant\<close>






section \<open>One pretraining step\<close>

subsection \<open>The target of full-determinant mode\<close>

definition zeros :: "nat list \<Rightarrow> 'a::zero ndarray" where
  "zeros sh = \<lparr>shape = sh, flat = replicate (prod_list sh) 0\<rparr>"

text \<open>
  \<^verbatim>\<open>jnp.concatenate((a, b), axis)\<close>. A negative axis counts from the end. The arrays must
  have the same number of axes and agree on every axis but the joined one. In row-major
  order the result interleaves the chunks of \<open>a\<close> and \<open>b\<close> that lie under one index of the
  axes before the joined one.
\<close>

definition concatenate :: "'a ndarray \<Rightarrow> 'a ndarray \<Rightarrow> int \<Rightarrow> error + 'a ndarray" where
  "concatenate a b axis =
     (let ndim = length (shape a);
          ax = (if axis < 0 then int ndim + axis else axis)
      in if length (shape b) \<noteq> ndim \<or> ax < 0 \<or> int ndim \<le> ax then Inl ConcatError
         else
           let d = nat ax;
               outer = prod_list (take d (shape a));
               chunk_a = prod_list (drop d (shape a));
               chunk_b = prod_list (drop d (shape b))
           in if take d (shape a) \<noteq> take d (shape b)
                 \<or> drop (Suc d) (shape a) \<noteq> drop (Suc d) (shape b) then Inl ConcatError
              else Inr \<lparr>shape = take d (shape a) @ [shape a ! d + shape b ! d] @ drop (Suc d) (shape a),
                        flat = concat (map (\<lambda>k. take chunk_a (drop (k * chunk_a) (flat a))
                                                  @ take chunk_b (drop (k * chunk_b) (flat b)))
                                           [0..<outer])\<rparr>)"

text \<open>Lines 151 to 157 of \<^verbatim>\<open>loss_fn\<close>: the value bound to \<^verbatim>\<open>target\<close> when \<^verbatim>\<open>full_det\<close>
  is set. Reading \<^verbatim>\<open>shape[1]\<close> of an array with fewer than two axes raises
  \<^verbatim>\<open>IndexError\<close>.\<close>

definition full_det_target :: "'a::zero ndarray \<times> 'a ndarray \<Rightarrow> error + 'a ndarray" where
  "full_det_target target =
     (if length (shape (fst target)) < 2 \<or> length (shape (snd target)) < 2 then Inl IndexError
      else
        let ndet = shape (fst target) ! 0;
            na = shape (fst target) ! 1;
            nb = shape (snd target) ! 1
        in case concatenate (fst target) (zeros [ndet, na, nb]) (- 1) of Inl e \<Rightarrow> Inl e
           | Inr upper \<Rightarrow>
           case concatenate (zeros [ndet, nb, na]) (snd target) (- 1) of Inl e \<Rightarrow> Inl e
           | Inr lower \<Rightarrow> concatenate upper lower (- 2))"

subsection \<open>The loss and the step\<close>

text \<open>
  What \<^verbatim>\<open>make_pretrain_step\<close> closes over, and the library functions the step calls. They
  are parameters: the network, the optimizer and the sampler are other modules'.
  \<^item> \<open>envelope_params p\<close> is \<^verbatim>\<open>p['envelope']\<close>;
  \<^item> \<open>mean_sq_err t env o\<close> is \<^verbatim>\<open>jnp.mean((t[:, None, ...] - env * o)**2)\<close>, with \<open>env\<close>
    reshaped to broadcast as in line 149;
  \<^item> \<open>grad_loss x p target\<close> is the gradient that \<^verbatim>\<open>jax.value_and_grad(loss_fn, argnums=1)\<close>
    computes on one worker;
  \<^item> \<open>pmean_tree\<close> is \<^verbatim>\<open>jax.lax.pmean\<close> on a tree of arrays: it takes the value of every
    worker and hands each of them the same mean;
  \<^item> \<open>optimizer_update\<close> is \<^verbatim>\<open>optimizer.update\<close>, \<open>apply_updates\<close> is
    \<^verbatim>\<open>optax.apply_updates\<close>, \<open>mh_update\<close> is \<^verbatim>\<open>mcmc.mh_update\<close>.
\<close>

record ('x, 'p, 'e, 's, 'k, 'lp, 'g, 'u, 'o) step_env =
  batch_envelope :: "'e \<Rightarrow> 'x \<Rightarrow> real list"
  batch_orbitals :: "'p \<Rightarrow> 'x \<Rightarrow> 'o list"
  batch_network :: "'p \<Rightarrow> 'x \<Rightarrow> 'lp"
  full_det :: bool
  envelope_params :: "'p \<Rightarrow> 'e"
  mean_sq_err :: "real ndarray \<Rightarrow> real list \<Rightarrow> 'o \<Rightarrow> real"
  grad_loss :: "'x \<Rightarrow> 'p \<Rightarrow> real ndarray \<times> real ndarray \<Rightarrow> 'g"
  pmean_tree :: "'g list \<Rightarrow> 'g"
  optimizer_update :: "'g \<Rightarrow> 's \<Rightarrow> 'p \<Rightarrow> 'u \<times> 's"
  apply_updates :: "'p \<Rightarrow> 'u \<Rightarrow> 'p"
  mh_update :: "'p \<Rightarrow> ('p \<Rightarrow> 'x \<Rightarrow> 'lp) \<Rightarrow> 'x \<Rightarrow> 'k \<Rightarrow> 'lp \<Rightarrow> real \<Rightarrow> 'x \<times> 'k \<times> 'lp \<times> real"

text \<open>The body of \<^verbatim>\<open>loss_fn\<close> on one worker, up to the cross-worker mean of line 165;
  \<open>n\<close> is the electron count of line 145.\<close>

definition local_loss ::
  "('x, 'p, 'e, 's, 'k, 'lp, 'g, 'u, 'o) step_env \<Rightarrow> 'x \<Rightarrow> 'p \<Rightarrow> real ndarray \<times> real ndarray
     \<Rightarrow> error + real" where
  "local_loss c x p target =
     (if shape (fst target) = [] \<or> shape (snd target) = [] then Inl IndexError
      else
        let n = last (shape (fst target)) + last (shape (snd target));
            env = map (\<lambda>e. exp (e / real n)) (batch_envelope c (envelope_params c p) x)
        in if full_det c then
             (case full_det_target target of Inl e \<Rightarrow> Inl e | Inr t \<Rightarrow>
              case batch_orbitals c p x of [] \<Rightarrow> Inl IndexError
              | ob # _ \<Rightarrow> Inr (mean_sq_err c t env ob))
           else Inr (\<Sum>(t, ob)\<leftarrow>zip [fst target, snd target] (batch_orbitals c p x).
                       mean_sq_err c t env ob))"

text \<open>\<^verbatim>\<open>jax.lax.pmean\<close> of a scalar over the workers.\<close>

definition pmean :: "real list \<Rightarrow> real" where
  "pmean xs = sum_list xs / real (length xs)"

text \<open>The first error of a list of results, or all the values.\<close>

fun collect :: "(error + 'a) list \<Rightarrow> error + 'a list" where
  "collect [] = Inr []"
| "collect (r # rs) =
     (case r of Inl e \<Rightarrow> Inl e
      | Inr x \<Rightarrow> (case collect rs of Inl e \<Rightarrow> Inl e | Inr xs \<Rightarrow> Inr (x # xs)))"

text \<open>The arguments of \<^verbatim>\<open>pretrain_step\<close> on one worker, and what it returns there.\<close>

record ('x, 'p, 's, 'k, 'lp) replica =
  r_data :: 'x
  r_target :: "real ndarray \<times> real ndarray"
  r_params :: 'p
  r_state :: 's
  r_key :: 'k
  r_logprob :: 'lp

record ('x, 'p, 's, 'lp) step_result =
  new_data :: 'x
  new_params :: 'p
  new_state :: 's
  loss_val :: real
  new_logprob :: 'lp

text \<open>\<^verbatim>\<open>loss_fn\<close> as the workers run it together: each returns the mean of all the local
  losses.\<close>

definition loss_fn ::
  "('x, 'p, 'e, 's, 'k, 'lp, 'g, 'u, 'o) step_env \<Rightarrow> ('x, 'p, 's, 'k, 'lp) replica list
     \<Rightarrow> error + real" where
  "loss_fn c ws =
     (case collect (map (\<lambda>w. local_loss c (r_data w) (r_params w) (r_target w)) ws) of
        Inl e \<Rightarrow> Inl e
      | Inr local_losses \<Rightarrow> Inr (pmean local_losses))"

text \<open>\<^verbatim>\<open>pretrain_step\<close>, lines 167 to 175, run by every worker of the list at once (the
  driver wraps it in \<^verbatim>\<open>pmap\<close>).\<close>

definition pretrain_step ::
  "('x, 'p, 'e, 's, 'k, 'lp, 'g, 'u, 'o) step_env \<Rightarrow> ('x, 'p, 's, 'k, 'lp) replica list
     \<Rightarrow> error + ('x, 'p, 's, 'lp) step_result list" where
  "pretrain_step c ws =
     (case loss_fn c ws of Inl e \<Rightarrow> Inl e | Inr loss \<Rightarrow>
      let local_directions = map (\<lambda>w. grad_loss c (r_data w) (r_params w) (r_target w)) ws;
          search_direction = pmean_tree c local_directions
      in Inr (map (\<lambda>w.
                case optimizer_update c search_direction (r_state w) (r_params w) of
                  (updates, state) \<Rightarrow>
                let params = apply_updates c (r_params w) updates in
                case mh_update c params (batch_network c) (r_data w) (r_key w) (r_logprob w) 0 of
                  (data, key, logprob, pmove) \<Rightarrow>
                \<lparr>new_data = data, new_params = params, new_state = state, loss_val = loss,
                 new_logprob = logprob\<rparr>) ws))"

section \<open>The pretraining driver\<close>

text \<open>
  The functions of \<^verbatim>\<open>ferminet.networks\<close>, \<^verbatim>\<open>optax\<close>, \<^verbatim>\<open>jax_utils\<close> and \<^verbatim>\<open>mcmc\<close> that
  \<^verbatim>\<open>pretrain_hartree_fock\<close> calls; they are parameters. \<open>vmap_orbitals\<close> is the batched
  closure of lines 218 to 227 around \<^verbatim>\<open>networks.fermi_net_orbitals\<close>, given what it
  captures; \<open>adam_init\<close> and \<open>adam_update\<close> are the two functions of \<^verbatim>\<open>optax.adam(3.e-4)\<close>.
\<close>

record ('p, 'e, 's, 'k, 'g, 'u, 'o) library =
  construct_input_features ::
    "real ndarray \<Rightarrow> real ndarray \<Rightarrow> real ndarray \<times> real ndarray \<times> real ndarray \<times> real ndarray"
  exact_cusp_envelope :: "real ndarray \<Rightarrow> real ndarray \<Rightarrow> 'e \<Rightarrow> real ndarray \<Rightarrow> nat \<times> nat \<Rightarrow> real"
  output_envelope :: "real ndarray \<Rightarrow> 'e \<Rightarrow> real"
  vmap_orbitals :: "real ndarray \<Rightarrow> nat \<times> nat \<Rightarrow> string \<Rightarrow> bool \<Rightarrow> 'p \<Rightarrow> real ndarray \<Rightarrow> 'o list"
  adam_init :: "'p \<Rightarrow> 's"
  adam_update :: "'g \<Rightarrow> 's \<Rightarrow> 'p \<Rightarrow> 'u \<times> 's"
  p_split :: "'k \<Rightarrow> 'k \<times> 'k"
  lib_envelope_params :: "'p \<Rightarrow> 'e"
  lib_mean_sq_err :: "real ndarray \<Rightarrow> real list \<Rightarrow> 'o \<Rightarrow> real"
  lib_grad_loss :: "real ndarray \<Rightarrow> 'p \<Rightarrow> real ndarray \<times> real ndarray \<Rightarrow> 'g"
  lib_pmean_tree :: "'g list \<Rightarrow> 'g"
  lib_apply_updates :: "'p \<Rightarrow> 'u \<Rightarrow> 'p"
  lib_mh_update ::
    "'p \<Rightarrow> ('p \<Rightarrow> real ndarray \<Rightarrow> real list) \<Rightarrow> real ndarray \<Rightarrow> 'k \<Rightarrow> real list \<Rightarrow> real
       \<Rightarrow> real ndarray \<times> 'k \<times> real list \<times> real"

text \<open>Lines 231 to 242: the envelope closure chosen by \<^verbatim>\<open>envelope_type\<close>.\<close>

definition envelope_fn ::
  "('p, 'e, 's, 'k, 'g, 'u, 'o) library \<Rightarrow> real ndarray \<Rightarrow> real ndarray \<Rightarrow> nat \<times> nat \<Rightarrow> string
     \<Rightarrow> 'e \<Rightarrow> real ndarray \<Rightarrow> real" where
  "envelope_fn lib atoms charges electrons envelope_type =
     (if envelope_type = ''exact_cusp'' then
        (\<lambda>p x. case construct_input_features lib x atoms of (ae, _, _, r_ee) \<Rightarrow>
                  exact_cusp_envelope lib ae r_ee p charges electrons)
      else if envelope_type = ''output'' then
        (\<lambda>p x. case construct_input_features lib x atoms of (ae, _, _, _) \<Rightarrow>
                  output_envelope lib ae p)
      else (\<lambda>p x. 0))"

text \<open>The slices of an array along its first axis, and the array that has given arrays
  as its slices: how \<^verbatim>\<open>vmap\<close> and \<^verbatim>\<open>pmap\<close> hand a mapped argument to the instances and
  collect what they return.\<close>

definition unstack :: "'a ndarray \<Rightarrow> 'a ndarray list" where
  "unstack a =
     (case shape a of [] \<Rightarrow> []
      | n # rest \<Rightarrow> map (\<lambda>w. \<lparr>shape = rest,
                                flat = take (prod_list rest) (drop (w * prod_list rest) (flat a))\<rparr>)
                         [0..<n])"

definition stack :: "'a ndarray list \<Rightarrow> 'a ndarray" where
  "stack arrs = \<lparr>shape = length arrs # (case arrs of [] \<Rightarrow> [] | a # _ \<Rightarrow> shape a),
                 flat = concat (map flat arrs)\<rparr>"

text \<open>Line 243, \<^verbatim>\<open>jax.vmap(envelope_fn, (None, 0))\<close>: the parameters are shared and the
  walkers of the batch are mapped.\<close>

definition batch_envelope_fn ::
  "('p, 'e, 's, 'k, 'g, 'u, 'o) library \<Rightarrow> real ndarray \<Rightarrow> real ndarray \<Rightarrow> nat \<times> nat \<Rightarrow> string
     \<Rightarrow> 'e \<Rightarrow> real ndarray \<Rightarrow> real list" where
  "batch_envelope_fn lib atoms charges electrons envelope_type p xs =
     map (envelope_fn lib atoms charges electrons envelope_type p) (unstack xs)"

text \<open>The keyword argument \<^verbatim>\<open>envelope_type='full'\<close> of the driver: \<open>None\<close> is a call that
  omits it.\<close>

definition envelope_type_arg :: "string option \<Rightarrow> string" where
  "envelope_type_arg given = (case given of None \<Rightarrow> ''full'' | Some s \<Rightarrow> s)"

text \<open>An atom of the molecule: its coordinates and its charge.\<close>

record atom =
  coords :: "real list"
  charge :: real

text \<open>Lines 214 to 250: what the driver hands to \<^verbatim>\<open>make_pretrain_step\<close>.\<close>

definition driver_step_env ::
  "('p, 'e, 's, 'k, 'g, 'u, 'o) library \<Rightarrow> ('p \<Rightarrow> real ndarray \<Rightarrow> real list) \<Rightarrow> atom list
     \<Rightarrow> nat \<times> nat \<Rightarrow> string \<Rightarrow> bool
     \<Rightarrow> (real ndarray, 'p, 'e, 's, 'k, real list, 'g, 'u, 'o) step_env" where
  "driver_step_env lib network molecule electrons envelope_type fd =
     (let atoms = stack (map (\<lambda>a. \<lparr>shape = [length (coords a)], flat = coords a\<rparr>) molecule);
          charges = \<lparr>shape = [length molecule], flat = map charge molecule\<rparr>
      in \<lparr>batch_envelope = batch_envelope_fn lib atoms charges electrons envelope_type,
          batch_orbitals = vmap_orbitals lib atoms electrons envelope_type fd,
          batch_network = network,
          full_det = fd,
          envelope_params = lib_envelope_params lib,
          mean_sq_err = lib_mean_sq_err lib,
          grad_loss = lib_grad_loss lib,
          pmean_tree = lib_pmean_tree lib,
          optimizer_update = adam_update lib,
          apply_updates = lib_apply_updates lib,
          mh_update = lib_mh_update lib\<rparr>)"

text \<open>The values the loop carries from one iteration to the next. \<open>ls_data\<close> is the
  sharded array of walkers, its first axis the workers; the others hold one value for
  each worker.\<close>

record ('p, 's, 'k) loop_state =
  ls_data :: "real ndarray"
  ls_params :: "'p list"
  ls_opt_state :: "'s list"
  ls_key :: "'k list"
  ls_logprob :: "real list list"

text \<open>\<^verbatim>\<open>pmap\<close> gives worker \<open>w\<close> the \<open>w\<close>-th slice of every argument; the arguments must
  agree on the number of workers.\<close>

definition replicas ::
  "real ndarray list \<Rightarrow> real ndarray list \<Rightarrow> real ndarray list \<Rightarrow> 'p list \<Rightarrow> 's list \<Rightarrow> 'k list
     \<Rightarrow> real list list \<Rightarrow> error + (real ndarray, 'p, 's, 'k, real list) replica list" where
  "replicas ds t0s t1s ps ss ks ls =
     (let n = length ds
      in if n = 0 \<or> length t0s \<noteq> n \<or> length t1s \<noteq> n \<or> length ps \<noteq> n \<or> length ss \<noteq> n
            \<or> length ks \<noteq> n \<or> length ls \<noteq> n then Inl PmapError
         else Inr (map (\<lambda>w. \<lparr>r_data = ds ! w, r_target = (t0s ! w, t1s ! w), r_params = ps ! w,
                              r_state = ss ! w, r_key = ks ! w, r_logprob = ls ! w\<rparr>) [0..<n]))"

text \<open>Lines 256 and 257 and the hand-over to \<^verbatim>\<open>pmap\<close>: the targets at the current
  walkers, the fresh keys, and with them the arguments of the step on every worker.\<close>

definition step_inputs ::
  "('k \<Rightarrow> 'k \<times> 'k) \<Rightarrow> (real ndarray \<Rightarrow> real ndarray \<times> real ndarray) \<Rightarrow> nat \<times> nat
     \<Rightarrow> ('p, 's, 'k) loop_state \<Rightarrow> error + (real ndarray, 'p, 's, 'k, real list) replica list" where
  "step_inputs split_key eval_mos electrons st =
     (case eval_orbitals eval_mos (JaxArray (ls_data st)) electrons of Inl e \<Rightarrow> Inl e
      | Inr target \<Rightarrow>
      let subkeys = map (\<lambda>k. snd (split_key k)) (ls_key st)
      in replicas (unstack (ls_data st)) (unstack (fst target)) (unstack (snd target))
           (ls_params st) (ls_opt_state st) subkeys (ls_logprob st))"

text \<open>The body of the loop, lines 256 to 260; the second component is the loss it logs,
  \<^verbatim>\<open>loss[0]\<close>.\<close>

definition iteration ::
  "(real ndarray, 'p, 'e, 's, 'k, real list, 'g, 'u, 'o) step_env \<Rightarrow> ('k \<Rightarrow> 'k \<times> 'k)
     \<Rightarrow> (real ndarray \<Rightarrow> real ndarray \<times> real ndarray) \<Rightarrow> nat \<times> nat \<Rightarrow> ('p, 's, 'k) loop_state
     \<Rightarrow> error + (('p, 's, 'k) loop_state \<times> real)" where
  "iteration c split_key eval_mos electrons st =
     (case step_inputs split_key eval_mos electrons st of Inl e \<Rightarrow> Inl e | Inr ws \<Rightarrow>
      let sharded_key = map (\<lambda>k. fst (split_key k)) (ls_key st)
      in case pretrain_step c ws of Inl e \<Rightarrow> Inl e | Inr outs \<Rightarrow>
         case outs of [] \<Rightarrow> Inl IndexError
         | first # _ \<Rightarrow>
           Inr (\<lparr>ls_data = stack (map new_data outs), ls_params = map new_params outs,
                 ls_opt_state = map new_state outs, ls_key = sharded_key,
                 ls_logprob = map new_logprob outs\<rparr>, loss_val first))"

text \<open>The loop \<^verbatim>\<open>for t in range(iterations)\<close>; \<open>logged\<close> collects the logged losses in order.\<close>

fun pretrain_loop ::
  "(real ndarray, 'p, 'e, 's, 'k, real list, 'g, 'u, 'o) step_env \<Rightarrow> ('k \<Rightarrow> 'k \<times> 'k)
     \<Rightarrow> (real ndarray \<Rightarrow> real ndarray \<times> real ndarray) \<Rightarrow> nat \<times> nat \<Rightarrow> nat
     \<Rightarrow> ('p, 's, 'k) loop_state \<Rightarrow> real list \<Rightarrow> error + (('p, 's, 'k) loop_state \<times> real list)" where
  "pretrain_loop c split_key eval_mos electrons 0 st logged = Inr (st, logged)"
| "pretrain_loop c split_key eval_mos electrons (Suc n) st logged =
     (case iteration c split_key eval_mos electrons st of Inl e \<Rightarrow> Inl e
      | Inr (st', loss) \<Rightarrow> pretrain_loop c split_key eval_mos electrons n st' (logged @ [loss]))"

text \<open>Lines 229 and 253: the optimizer state of every worker and the log-probability
  \<open>2 * network(params, data)\<close> of its walkers, with which the loop starts.\<close>

definition initial_state ::
  "('p, 'e, 's, 'k, 'g, 'u, 'o) library \<Rightarrow> 'p list \<Rightarrow> real ndarray \<Rightarrow> ('p \<Rightarrow> real ndarray \<Rightarrow> real list)
     \<Rightarrow> 'k list \<Rightarrow> ('p, 's, 'k) loop_state" where
  "initial_state lib params data network sharded_key =
     \<lparr>ls_data = data, ls_params = params, ls_opt_state = map (adam_init lib) params,
      ls_key = sharded_key,
      ls_logprob = map (\<lambda>(p, d). map (\<lambda>v. 2 * v) (network p d)) (zip params (unstack data))\<rparr>"

text \<open>
  \<^verbatim>\<open>pretrain_hartree_fock\<close>. \<open>params\<close> and \<open>sharded_key\<close> hold one value for each worker;
  \<open>envelope_type = None\<close> is a call that leaves the keyword out. The result is the pair
  the function returns, together with the losses it has logged.
\<close>

definition pretrain_hartree_fock ::
  "('p, 'e, 's, 'k, 'g, 'u, 'o) library \<Rightarrow> 'p list \<Rightarrow> real ndarray \<Rightarrow> ('p \<Rightarrow> real ndarray \<Rightarrow> real list)
     \<Rightarrow> 'k list \<Rightarrow> atom list \<Rightarrow> nat \<times> nat \<Rightarrow> (real ndarray \<Rightarrow> real ndarray \<times> real ndarray)
     \<Rightarrow> string option \<Rightarrow> bool \<Rightarrow> nat \<Rightarrow> error + (('p list \<times> real ndarray) \<times> real list)" where
  "pretrain_hartree_fock lib params data network sharded_key molecule electrons eval_mos
      envelope_type fd iterations =
     (let c = driver_step_env lib network molecule electrons (envelope_type_arg envelope_type) fd
      in if length (unstack data) \<noteq> length params \<or> params = [] then Inl PmapError
         else
           case pretrain_loop c (p_split lib) eval_mos electrons iterations
                  (initial_state lib params data network sharded_key) [] of
             Inl e \<Rightarrow> Inl e
           | Inr (st', logged) \<Rightarrow> Inr ((ls_params st', ls_data st'), logged))"

section \<open>A small reference model\<close>

text \<open>Two orbitals for each spin channel, used to run the functions on concrete
  walkers: at the point \<open>(x, y, z)\<close> the up-spin orbitals have the values \<open>x\<close> and \<open>y\<close>, the
  down-spin orbitals \<open>z\<close> and \<open>x\<close>.\<close>

definition sample_mos :: "real ndarray \<Rightarrow> real ndarray \<times> real ndarray" where
  "sample_mos = pointwise_mos 2 (\<lambda>p. [p ! 0, p ! 1]) (\<lambda>p. [p ! 2, p ! 0])"

text \<open>
  A network with one real parameter \<open>p\<close> whose orbital in each channel is \<open>p\<close> itself, so
  that the squared error against a target entry \<open>t\<close> is \<open>(t - env * p)\<^sup>2\<close> and, with the unit
  envelope, its derivative in \<open>p\<close> is \<open>- 2 * (t - p)\<close>. The optimizer is plain gradient
  descent with rate \<open>1/4\<close> that counts its steps, the cross-worker mean of the gradient is
  the arithmetic mean, and the sampler moves every coordinate by the parameter value plus
  the move width and reports the network value as the new log-probability.
\<close>

definition sample_library :: "(real, real, nat, nat, real, real, real) library" where
  "sample_library =
     \<lparr>construct_input_features = (\<lambda>x atoms. (x, x, x, x)),
      exact_cusp_envelope = (\<lambda>ae r_ee p charges electrons. p + 1),
      output_envelope = (\<lambda>ae p. p + 2),
      vmap_orbitals = (\<lambda>atoms electrons envelope_type fd p x. if fd then [p] else [p, p]),
      adam_init = (\<lambda>p. 0),
      adam_update = (\<lambda>g s p. (- g / 4, Suc s)),
      p_split = (\<lambda>k. (2 * k, 2 * k + 1)),
      lib_envelope_params = (\<lambda>p. p),
      lib_mean_sq_err = (\<lambda>t env ob. (hd (flat t) - hd env * ob)\<^sup>2),
      lib_grad_loss = (\<lambda>x p target. - 2 * (hd (flat (fst target)) - p)
                                          - 2 * (hd (flat (snd target)) - p)),
      lib_pmean_tree = (\<lambda>gs. sum_list gs / real (length gs)),
      lib_apply_updates = (\<lambda>p u. p + u),
      lib_mh_update = (\<lambda>p network x k lp width.
                         (x\<lparr>flat := map (\<lambda>v. v + p + width) (flat x)\<rparr>, Suc k, network p x, 0))\<rparr>"

definition sample_network :: "real \<Rightarrow> real ndarray \<Rightarrow> real list" where
  "sample_network p x = map (\<lambda>w. p * sum_list (flat w)) (unstack x)"

definition sample_molecule :: "atom list" where
  "sample_molecule = [\<lparr>coords = [0, 0, 0], charge = 1\<rparr>, \<lparr>coords = [0, 0, 14 / 10], charge = 1\<rparr>]"

text \<open>The step environment the driver builds from these for two electrons of opposite
  spin, and two workers that hold the same parameter and optimizer state but different
  walkers and targets.\<close>

definition sample_env ::
  "(real ndarray, real, real, nat, nat, real list, real, real, real) step_env" where
  "sample_env = driver_step_env sample_library sample_network sample_molecule (1, 1) ''full'' False"

definition sample_workers :: "(real ndarray, real, nat, nat, real list) replica list" where
  "sample_workers =
     [\<lparr>r_data = \<lparr>shape = [1, 6], flat = [1, 2, 3, 4, 5, 6]\<rparr>,
       r_target = (\<lparr>shape = [1, 1, 1], flat = [3]\<rparr>, \<lparr>shape = [1, 1, 1], flat = [5]\<rparr>),
       r_params = 1, r_state = 0, r_key = 7, r_logprob = [0]\<rparr>,
      \<lparr>r_data = \<lparr>shape = [1, 6], flat = [6, 5, 4, 3, 2, 1]\<rparr>,
       r_target = (\<lparr>shape = [1, 1, 1], flat = [7]\<rparr>, \<lparr>shape = [1, 1, 1], flat = [9]\<rparr>),
       r_params = 1, r_state = 0, r_key = 8, r_logprob = [0]\<rparr>]"

text \<open>What the step returns on the two workers.\<close>

definition sample_results :: "(real ndarray, real, nat, real list) step_result list" where
  "sample_results =
     [\<lparr>new_data = \<lparr>shape = [1, 6], flat = [7, 8, 9, 10, 11, 12]\<rparr>, new_params = 6,
       new_state = 1, loss_val = 60, new_logprob = [126]\<rparr>,
      \<lparr>new_data = \<lparr>shape = [1, 6], flat = [12, 11, 10, 9, 8, 7]\<rparr>, new_params = 6,
       new_state = 1, loss_val = 60, new_logprob = [126]\<rparr>]"







section \<open>Lists made of equal blocks\<close>

lemma length_concat_blocks:
  "(\<And>k. k < n \<Longrightarrow> length (f k) = m) \<Longrightarrow> length (concat (map f [0..<n])) = n * m"
  by (induction n) simp_all

lemma nth_concat_blocks:
  "(\<And>k. k < n \<Longrightarrow> length (f k) = m) \<Longrightarrow> k < n \<Longrightarrow> i < m
     \<Longrightarrow> concat (map f [0..<n]) ! (k * m + i) = f k ! i"
proof (induction n)
  case 0
  then show ?case by simp
next
  case (Suc n)
  have len: "length (concat (map f [0..<n])) = n * m"
    using Suc.prems(1) by (simp add: length_concat_blocks)
  show ?case
  proof (cases "k < n")
    case True
    then have "Suc k * m \<le> n * m" by (intro mult_le_mono1) simp
    then have "k * m + i < n * m" using Suc.prems(3) by simp
    then show ?thesis using Suc True len by (simp add: nth_append)
  next
    case False
    then have "k = n" using Suc.prems(2) by simp
    then show ?thesis using len by (simp add: nth_append)
  qed
qed


lemma known_dims_leading:
  "filter (\<lambda>d. 0 \<le> d) (map int ld @ [int n, -1]) = map int ld @ [int n]"
  by (induction ld) simp_all

lemma unknown_dims_leading:
  "filter (\<lambda>d. d < 0) (map int ld @ [int n, -1]) = [-1]"
  by (induction ld) simp_all


lemma nat_int_dims: "map (nat \<circ> int) ld = ld"
  by (induction ld) simp_all

lemma np_reshape_points:
  "shape a = ld @ [n * 3] \<Longrightarrow> np_reshape a [-1, 3] = Inr \<lparr>shape = [prod_list ld * n, 3], flat = flat a\<rparr>"
  by (simp add: np_reshape_def)


lemma np_reshape_mos_empty:
  assumes "prod_list ld * n = 0"
  shows "np_reshape mo (map int ld @ [int n, -1]) = Inl ReshapeError"
  unfolding np_reshape_def Let_def known_dims_leading unknown_dims_leading
  using assms by (simp add: nat_int_dims)

lemma block_index_bound:
  fixes k i n m :: nat
  assumes "k < n" and "i < m"
  shows "k * m + i < n * m"
proof -
  have "Suc k * m \<le> n * m" using assms(1) by (intro mult_le_mono1) simp
  then show ?thesis using assms(2) by simp
qed







section \<open>Properties of the reference evaluator\<close>





text \<open>The same holds for every reference model and every array that has a zero among
  its leading dimensions, or no electron.\<close>

lemma eval_orbitals_empty_raises:
  assumes "pos = NdArray a \<or> pos = JaxArray a"
    and "shape a = ld @ [(n_up + n_down) * 3]"
    and "prod_list ld * (n_up + n_down) = 0"
  shows "eval_orbitals eval_mos pos (n_up, n_down) = Inl ReshapeError"
proof -
  have arr: "copy_unless_ndarray pos = Inr pos" "array_of pos = Inr a"
    using assms(1) by (auto simp: copy_unless_ndarray_def)
  have lead: "butlast (shape a) = ld" using assms(2) by (simp add: butlast_append)
  show ?thesis
    unfolding eval_orbitals_def
    by (simp add: arr lead np_reshape_points[OF assms(2)] np_reshape_mos_empty[OF assms(3)] Let_def
        del: of_nat_add mult_eq_0_iff)
qed

lemma np_reshape_error: "np_reshape a newshape = Inl e \<Longrightarrow> e = ReshapeError"
  by (auto simp: np_reshape_def Let_def split: if_splits)

lemma slice_last2_error: "slice_last2 start stop ncol a = Inl e \<Longrightarrow> e = IndexError"
  by (auto simp: slice_last2_def Let_def split: if_splits)

lemma array_of_error: "array_of pos = Inl e \<Longrightarrow> e = AttributeError"
  by (cases pos rule: array_of.cases) auto

lemma eval_orbitals_after_copy:
  assumes "copy_unless_ndarray pos = Inr pos1"
  shows "eval_orbitals eval_mos pos spins \<noteq> Inl InputTypeError"
proof
  assume raised: "eval_orbitals eval_mos pos spins = Inl InputTypeError"
  then show False
    unfolding eval_orbitals_def Let_def using assms
    by (auto split: sum.splits dest: np_reshape_error slice_last2_error array_of_error)
qed

text \<open>The guard of lines 77 to 81 by itself: the input-type error is raised exactly for
  the values that are no NumPy arrays and whose \<^verbatim>\<open>copy()\<close> raises \<^verbatim>\<open>AttributeError\<close>, whatever
  the reference model is.\<close>

lemma eval_orbitals_guard:
  "eval_orbitals eval_mos pos spins = Inl InputTypeError
     \<longleftrightarrow> \<not> isinstance_ndarray pos \<and> py_copy pos = CopyRaisesAttributeError"
proof (cases "copy_unless_ndarray pos")
  case (Inl e)
  then show ?thesis
    by (auto simp: eval_orbitals_def copy_unless_ndarray_def split: if_splits copy_outcome.splits)
next
  case (Inr pos1)
  then have "eval_orbitals eval_mos pos spins \<noteq> Inl InputTypeError"
    by (rule eval_orbitals_after_copy)
  moreover have "isinstance_ndarray pos \<or> py_copy pos \<noteq> CopyRaisesAttributeError"
    using Inr by (auto simp: copy_unless_ndarray_def split: if_splits copy_outcome.splits)
  ultimately show ?thesis by blast
qed

text \<open>
  Claim C8 asks for the input-type error for every value that is no array and whose
  \<^verbatim>\<open>copy\<close> yields no array, in line with the message of line 81, "Input must be either NumPy
  or JAX array". The code misses this for a Python list: a list has a \<^verbatim>\<open>copy\<close> method, so
  the guard lets it through, and \<open>eval_orbitals\<close> raises \<^verbatim>\<open>AttributeError\<close> at \<^verbatim>\<open>pos.shape\<close>
  instead of the input-type error.
\<close>

theorem eval_orbitals_list_attribute_error:
  "eval_orbitals sample_mos (PyList [0, 0, 0]) (1, 0) = Inl AttributeError
   \<and> eval_orbitals sample_mos (PyList [0, 0, 0]) (1, 0) \<noteq> Inl InputTypeError"
  by (simp add: eval_orbitals_def copy_unless_ndarray_def)

section \<open>Properties of the Slater determinant\<close>












section \<open>Properties of the full-determinant target\<close>

lemma interleave_blocks:
  fixes xa xb :: "'a list"
  assumes la: "length xa = outer * ca" and lb: "length xb = outer * cb"
  defines "ys \<equiv> concat (map (\<lambda>k. take ca (drop (k * ca) xa) @ take cb (drop (k * cb) xb)) [0..<outer])"
  shows "length ys = outer * (ca + cb)"
    and "k < outer \<Longrightarrow> i < ca + cb \<Longrightarrow>
         ys ! (k * (ca + cb) + i) = (if i < ca then xa ! (k * ca + i) else xb ! (k * cb + (i - ca)))"
proof -
  let ?f = "\<lambda>k. take ca (drop (k * ca) xa) @ take cb (drop (k * cb) xb)"
  have blk: "length (take ca (drop (k * ca) xa)) = ca" "length (take cb (drop (k * cb) xb)) = cb"
    if "k < outer" for k
  proof -
    have "Suc k * ca \<le> outer * ca" "Suc k * cb \<le> outer * cb"
      using that by (simp_all del: mult_Suc)
    then show "length (take ca (drop (k * ca) xa)) = ca" "length (take cb (drop (k * cb) xb)) = cb"
      using la lb by simp_all
  qed
  then have flen: "length (?f k) = ca + cb" if "k < outer" for k
    using that by simp
  show "length ys = outer * (ca + cb)"
    unfolding ys_def using length_concat_blocks[of outer ?f "ca + cb"] flen by simp
  show "ys ! (k * (ca + cb) + i) = (if i < ca then xa ! (k * ca + i) else xb ! (k * cb + (i - ca)))"
    if "k < outer" "i < ca + cb"
  proof -
    have "ys ! (k * (ca + cb) + i) = ?f k ! i"
      unfolding ys_def by (rule nth_concat_blocks[of outer ?f "ca + cb" k i]) (use flen that in simp_all)
    also have "\<dots> = (if i < ca then xa ! (k * ca + i) else xb ! (k * cb + (i - ca)))"
    proof (cases "i < ca")
      case True
      have "k * ca \<le> length xa" using that(1) la by simp
      then show ?thesis using True blk[OF that(1)] by (simp add: nth_append)
    next
      case False
      have "k * cb \<le> length xb" using that(1) lb by simp
      then show ?thesis using False blk[OF that(1)] that(2) by (simp add: nth_append)
    qed
    finally show ?thesis .
  qed
qed

lemma concatenate_last_axis:
  assumes "shape a = [n0, n1, ca]" and "shape b = [n0, n1, cb]"
  shows "concatenate a b (- 1) = Inr \<lparr>shape = [n0, n1, ca + cb],
           flat = concat (map (\<lambda>k. take ca (drop (k * ca) (flat a)) @ take cb (drop (k * cb) (flat b)))
                              [0..<n0 * n1])\<rparr>"
  using assms by (simp add: concatenate_def Let_def)

lemma concatenate_row_axis:
  assumes "shape a = [n0, ra, c]" and "shape b = [n0, rb, c]"
  shows "concatenate a b (- 2) = Inr \<lparr>shape = [n0, ra + rb, c],
           flat = concat (map (\<lambda>k. take (ra * c) (drop (k * (ra * c)) (flat a))
                                     @ take (rb * c) (drop (k * (rb * c)) (flat b)))
                              [0..<n0])\<rparr>"
  using assms by (simp add: concatenate_def Let_def)

text \<open>
  Claim C1. In full-determinant mode, for every pair of targets \<open>alpha\<close> of shape
  \<open>(ndet, na, na)\<close> and \<open>beta\<close> of shape \<open>(ndet, nb, nb)\<close>, the target the loss function builds
  has shape \<open>(ndet, na + nb, na + nb)\<close>; its top-left \<open>na\<close> by \<open>na\<close> block is \<open>alpha\<close>, its
  bottom-right \<open>nb\<close> by \<open>nb\<close> block is \<open>beta\<close>, and every entry of the two off-diagonal blocks
  is exactly zero.
\<close>

theorem full_det_target_block_diagonal:
  fixes alpha beta :: "'a::zero ndarray"
  assumes wa: "wf_array alpha" and sa: "shape alpha = [ndet, na, na]"
    and wb: "wf_array beta" and sb: "shape beta = [ndet, nb, nb]"
  shows "\<exists>t. full_det_target (alpha, beta) = Inr t
     \<and> shape t = [ndet, na + nb, na + nb] \<and> wf_array t
     \<and> (\<forall>k<ndet. \<forall>i<na + nb. \<forall>j<na + nb.
           at3 t k i j = (if i < na \<and> j < na then at3 alpha k i j
                          else if na \<le> i \<and> na \<le> j then at3 beta k (i - na) (j - na)
                          else 0))"
proof -
  let ?n = "na + nb"
  let ?za = "zeros [ndet, na, nb] :: 'a ndarray"
  let ?zb = "zeros [ndet, nb, na] :: 'a ndarray"
  let ?U = "concat (map (\<lambda>k. take na (drop (k * na) (flat alpha)) @ take nb (drop (k * nb) (flat ?za)))
                        [0..<ndet * na])"
  let ?L = "concat (map (\<lambda>k. take na (drop (k * na) (flat ?zb)) @ take nb (drop (k * nb) (flat beta)))
                        [0..<ndet * nb])"
  let ?T = "concat (map (\<lambda>k. take (na * ?n) (drop (k * (na * ?n)) ?U)
                              @ take (nb * ?n) (drop (k * (nb * ?n)) ?L))
                        [0..<ndet])"
  have la: "length (flat alpha) = ndet * na * na" and lb: "length (flat beta) = ndet * nb * nb"
    using wa sa wb sb by (simp_all add: wf_array_def)
  have lza: "length (flat ?za) = ndet * na * nb" and lzb: "length (flat ?zb) = ndet * nb * na"
    by (simp_all add: zeros_def)
  have upper: "concatenate alpha ?za (- 1) = Inr \<lparr>shape = [ndet, na, ?n], flat = ?U\<rparr>"
    by (rule concatenate_last_axis) (simp_all add: sa zeros_def)
  have lower: "concatenate ?zb beta (- 1) = Inr \<lparr>shape = [ndet, nb, ?n], flat = ?L\<rparr>"
    using concatenate_last_axis[of ?zb ndet nb na beta nb] by (simp add: sb zeros_def add.commute)
  have whole: "concatenate \<lparr>shape = [ndet, na, ?n], flat = ?U\<rparr> \<lparr>shape = [ndet, nb, ?n], flat = ?L\<rparr> (- 2)
      = Inr \<lparr>shape = [ndet, ?n, ?n], flat = ?T\<rparr>"
    using concatenate_row_axis[of "\<lparr>shape = [ndet, na, ?n], flat = ?U\<rparr>" ndet na ?n
        "\<lparr>shape = [ndet, nb, ?n], flat = ?L\<rparr>" nb] by simp
  have res: "full_det_target (alpha, beta) = Inr \<lparr>shape = [ndet, ?n, ?n], flat = ?T\<rparr>"
    unfolding full_det_target_def by (simp add: sa sb upper lower whole Let_def)
  have lU: "length ?U = ndet * (na * ?n)"
    using interleave_blocks(1)[of "flat alpha" "ndet * na" na "flat ?za" nb] la lza
    by (simp add: mult.assoc)
  have lL: "length ?L = ndet * (nb * ?n)"
    using interleave_blocks(1)[of "flat ?zb" "ndet * nb" na "flat beta" nb] lb lzb
    by (simp add: mult.assoc)
  have lT: "length ?T = ndet * (?n * ?n)"
    using interleave_blocks(1)[of ?U ndet "na * ?n" ?L "nb * ?n"] lU lL
    by (simp add: algebra_simps)
  have za_nth: "flat ?za ! q = 0" if "q < ndet * na * nb" for q
    using that by (simp add: zeros_def)
  have zb_nth: "flat ?zb ! q = 0" if "q < ndet * nb * na" for q
    using that by (simp add: zeros_def)
  have U: "?U ! (r * ?n + j) = (if j < na then flat alpha ! (r * na + j) else 0)"
    if "r < ndet * na" "j < ?n" for r j
  proof -
    have eq: "?U ! (r * ?n + j)
        = (if j < na then flat alpha ! (r * na + j) else flat ?za ! (r * nb + (j - na)))"
      by (rule interleave_blocks(2)[of "flat alpha" "ndet * na" na "flat ?za" nb r j])
         (use la lza that in simp_all)
    show ?thesis
    proof (cases "j < na")
      case True
      then show ?thesis using eq by simp
    next
      case False
      then have "j - na < nb" using \<open>j < ?n\<close> by simp
      with \<open>r < ndet * na\<close> have "r * nb + (j - na) < ndet * na * nb" by (rule block_index_bound)
      then show ?thesis using eq False za_nth by simp
    qed
  qed
  have L: "?L ! (r * ?n + j) = (if j < na then 0 else flat beta ! (r * nb + (j - na)))"
    if "r < ndet * nb" "j < ?n" for r j
  proof -
    have eq: "?L ! (r * ?n + j)
        = (if j < na then flat ?zb ! (r * na + j) else flat beta ! (r * nb + (j - na)))"
      by (rule interleave_blocks(2)[of "flat ?zb" "ndet * nb" na "flat beta" nb r j])
         (use lb lzb that in simp_all)
    show ?thesis
    proof (cases "j < na")
      case True
      with \<open>r < ndet * nb\<close> have "r * na + j < ndet * nb * na" by (rule block_index_bound)
      then show ?thesis using eq True zb_nth by simp
    next
      case False
      then show ?thesis using eq by simp
    qed
  qed
  have T: "?T ! ((k * ?n + i) * ?n + j) =
      (if i < na \<and> j < na then flat alpha ! ((k * na + i) * na + j)
       else if na \<le> i \<and> na \<le> j then flat beta ! ((k * nb + (i - na)) * nb + (j - na))
       else 0)" if k: "k < ndet" and i: "i < ?n" and j: "j < ?n" for k i j
  proof -
    have ij: "i * ?n + j < ?n * ?n" using i j by (rule block_index_bound)
    have idx: "(k * ?n + i) * ?n + j = k * (na * ?n + nb * ?n) + (i * ?n + j)"
      by (simp add: algebra_simps)
    have step: "?T ! (k * (na * ?n + nb * ?n) + (i * ?n + j)) =
        (if i * ?n + j < na * ?n then ?U ! (k * (na * ?n) + (i * ?n + j))
         else ?L ! (k * (nb * ?n) + (i * ?n + j - na * ?n)))"
      by (rule interleave_blocks(2)[of ?U ndet "na * ?n" ?L "nb * ?n" k "i * ?n + j"])
         (use lU lL k ij in \<open>simp_all add: algebra_simps\<close>)
    show ?thesis
    proof (cases "i < na")
      case True
      then have small: "i * ?n + j < na * ?n" using j by (rule block_index_bound)
      have r: "k * na + i < ndet * na" using k True by (rule block_index_bound)
      have "k * (na * ?n) + (i * ?n + j) = (k * na + i) * ?n + j" by (simp add: algebra_simps)
      then show ?thesis using step small U[OF r j] True by (simp only: idx) simp
    next
      case False
      then have big: "\<not> i * ?n + j < na * ?n"
        by (metis add.commute le_add2 mult_le_mono1 not_le trans_le_add2 not_less)
      have r: "k * nb + (i - na) < ndet * nb" using k False i by (intro block_index_bound) simp_all
      have "i * ?n + j - na * ?n = (i - na) * ?n + j" using False
        by (simp add: diff_mult_distrib)
      then have "k * (nb * ?n) + (i * ?n + j - na * ?n) = (k * nb + (i - na)) * ?n + j"
        by (simp add: algebra_simps)
      then show ?thesis using step big L[OF r j] False by (simp only: idx) auto
    qed
  qed
  show ?thesis
    unfolding res using lT T by (simp add: wf_array_def at3_def sa sb)
qed

theorem full_det_target_block_diagonal_witness:
  "\<exists>t. full_det_target (\<lparr>shape = [1, 1, 1], flat = [5 :: real]\<rparr>,
                          \<lparr>shape = [1, 2, 2], flat = [1, 2, 3, 4]\<rparr>) = Inr t
     \<and> shape t = [1, 1 + 2, 1 + 2] \<and> wf_array t
     \<and> (\<forall>k<1. \<forall>i<1 + 2. \<forall>j<1 + 2.
           at3 t k i j = (if i < 1 \<and> j < 1 then at3 \<lparr>shape = [1, 1, 1], flat = [5 :: real]\<rparr> k i j
                          else if 1 \<le> i \<and> 1 \<le> j
                            then at3 \<lparr>shape = [1, 2, 2], flat = [1, 2, 3, 4 :: real]\<rparr> k (i - 1) (j - 1)
                          else 0))"
  by (rule full_det_target_block_diagonal) (simp_all add: wf_array_def)


section \<open>Properties of the pretraining step\<close>

lemma pretrain_step_Inr:
  assumes "pretrain_step c ws = Inr outs"
  obtains loss where "loss_fn c ws = Inr loss"
    and "outs = map (\<lambda>w.
            case optimizer_update c
                   (pmean_tree c (map (\<lambda>w. grad_loss c (r_data w) (r_params w) (r_target w)) ws))
                   (r_state w) (r_params w) of
              (updates, state) \<Rightarrow>
            let params = apply_updates c (r_params w) updates in
            case mh_update c params (batch_network c) (r_data w) (r_key w) (r_logprob w) 0 of
              (data, key, logprob, pmove) \<Rightarrow>
            \<lparr>new_data = data, new_params = params, new_state = state, loss_val = loss,
             new_logprob = logprob\<rparr>) ws"
  using assms unfolding pretrain_step_def Let_def by (auto split: sum.splits)


lemma sample_env_simps:
  "batch_envelope sample_env = (\<lambda>e xs. map (\<lambda>x. 0) (unstack xs))"
  "batch_orbitals sample_env = (\<lambda>p x. [p, p])"
  "batch_network sample_env = sample_network"
  "full_det sample_env = False"
  "envelope_params sample_env = (\<lambda>p. p)"
  "mean_sq_err sample_env = (\<lambda>t env ob. (hd (flat t) - hd env * ob)\<^sup>2)"
  "grad_loss sample_env = (\<lambda>x p target. - 2 * (hd (flat (fst target)) - p)
                                          - 2 * (hd (flat (snd target)) - p))"
  "pmean_tree sample_env = (\<lambda>gs. sum_list gs / real (length gs))"
  "optimizer_update sample_env = (\<lambda>g s p. (- g / 4, Suc s))"
  "apply_updates sample_env = (\<lambda>p u. p + u)"
  "mh_update sample_env = (\<lambda>p network x k lp width.
                         (x\<lparr>flat := map (\<lambda>v. v + p + width) (flat x)\<rparr>, Suc k, network p x, 0))"
  by (simp_all add: sample_env_def driver_step_env_def sample_library_def Let_def
      batch_envelope_fn_def envelope_fn_def fun_eq_iff)

lemma sample_local_losses:
  "local_loss sample_env (r_data (sample_workers ! 0)) (r_params (sample_workers ! 0))
     (r_target (sample_workers ! 0)) = Inr 20"
  "local_loss sample_env (r_data (sample_workers ! 1)) (r_params (sample_workers ! 1))
     (r_target (sample_workers ! 1)) = Inr 100"
  by (simp_all add: local_loss_def sample_env_simps sample_workers_def unstack_def Let_def)

lemma sample_loss: "loss_fn sample_env sample_workers = Inr 60"
  using sample_local_losses
  by (simp add: loss_fn_def sample_workers_def pmean_def)

lemma sample_step: "pretrain_step sample_env sample_workers = Inr sample_results"
  unfolding pretrain_step_def sample_loss
  by (simp add: sample_env_simps sample_workers_def sample_results_def sample_network_def
      unstack_def Let_def)




text \<open>
  Claim C5. When every worker begins a pretrain step with the same parameters and the
  same optimizer state, all workers hold the same parameters (and the same optimizer
  state) after the step, whatever their walkers, targets and therefore local gradients
  are.
\<close>

theorem pretrain_step_synchronised:
  assumes "pretrain_step c ws = Inr outs"
    and "\<forall>w\<in>set ws. r_params w = p \<and> r_state w = s"
  shows "\<forall>a\<in>set outs. \<forall>b\<in>set outs. new_params a = new_params b \<and> new_state a = new_state b"
proof -
  let ?g = "pmean_tree c (map (\<lambda>w. grad_loss c (r_data w) (r_params w) (r_target w)) ws)"
  from assms(1) obtain loss where outs: "outs = map (\<lambda>w.
            case optimizer_update c ?g (r_state w) (r_params w) of
              (updates, state) \<Rightarrow>
            let params = apply_updates c (r_params w) updates in
            case mh_update c params (batch_network c) (r_data w) (r_key w) (r_logprob w) 0 of
              (data, key, logprob, pmove) \<Rightarrow>
            \<lparr>new_data = data, new_params = params, new_state = state, loss_val = loss,
             new_logprob = logprob\<rparr>) ws"
    by (rule pretrain_step_Inr)
  have "new_params a = apply_updates c p (fst (optimizer_update c ?g s p))
      \<and> new_state a = snd (optimizer_update c ?g s p)" if "a \<in> set outs" for a
    using that assms(2) unfolding outs by (auto simp: Let_def split: prod.splits)
  then show ?thesis by simp
qed

theorem pretrain_step_synchronised_witness:
  "pretrain_step sample_env sample_workers = Inr sample_results
   \<and> map r_params sample_workers = [1, 1] \<and> map r_state sample_workers = [0, 0]
   \<and> map (\<lambda>v. grad_loss sample_env (r_data v) (r_params v) (r_target v)) sample_workers
       = [- 12, - 28]
   \<and> new_params (sample_results ! 0) = new_params (sample_results ! 1)
   \<and> new_state (sample_results ! 0) = new_state (sample_results ! 1)"
proof -
  have same: "\<forall>w\<in>set sample_workers. r_params w = 1 \<and> r_state w = 0"
    by (simp add: sample_workers_def)
  have start: "map r_params sample_workers = [1, 1]" "map r_state sample_workers = [0, 0]"
    by (simp_all add: sample_workers_def)
  have grads: "map (\<lambda>v. grad_loss sample_env (r_data v) (r_params v) (r_target v)) sample_workers
       = [- 12, - 28]"
    by (simp add: sample_env_simps sample_workers_def)
  have members: "sample_results ! 0 \<in> set sample_results" "sample_results ! 1 \<in> set sample_results"
    by (simp_all add: sample_results_def)
  from pretrain_step_synchronised[OF sample_step same] members
  have "new_params (sample_results ! 0) = new_params (sample_results ! 1)
      \<and> new_state (sample_results ! 0) = new_state (sample_results ! 1)"
    by blast
  with sample_step start grads show ?thesis by blast
qed

section \<open>Properties of the pretraining loop\<close>

lemma pretrain_loop_logged:
  "pretrain_loop c sk em el n st logged =
     (case pretrain_loop c sk em el n st [] of Inl e \<Rightarrow> Inl e
      | Inr (st', l) \<Rightarrow> Inr (st', logged @ l))"
proof (induction n arbitrary: st logged)
  case 0
  then show ?case by simp
next
  case (Suc n)
  show ?case
  proof (cases "iteration c sk em el st")
    case (Inl e)
    then show ?thesis by simp
  next
    case (Inr r)
    obtain st1 loss where r: "r = (st1, loss)" by (cases r)
    show ?thesis
      using Suc.IH[of st1 "logged @ [loss]"] Suc.IH[of st1 "[loss]"] Inr r
      by (simp split: sum.splits)
  qed
qed

lemma pretrain_loop_snoc:
  "pretrain_loop c sk em el (Suc n) st [] =
     (case pretrain_loop c sk em el n st [] of Inl e \<Rightarrow> Inl e
      | Inr (st_n, l) \<Rightarrow>
        (case iteration c sk em el st_n of Inl e \<Rightarrow> Inl e
         | Inr (st', loss) \<Rightarrow> Inr (st', l @ [loss])))"
proof (induction n arbitrary: st)
  case 0
  then show ?case by (simp split: sum.splits)
next
  case (Suc n)
  show ?case
  proof (cases "iteration c sk em el st")
    case (Inl e)
    then show ?thesis by simp
  next
    case (Inr r)
    obtain st1 loss where r: "r = (st1, loss)" by (cases r)
    have "pretrain_loop c sk em el (Suc (Suc n)) st [] = pretrain_loop c sk em el (Suc n) st1 [loss]"
      using Inr r by simp
    also have "\<dots> = (case pretrain_loop c sk em el (Suc n) st1 [] of Inl e \<Rightarrow> Inl e
                      | Inr (st', l) \<Rightarrow> Inr (st', [loss] @ l))"
      by (rule pretrain_loop_logged)
    finally show ?thesis
      using Suc.IH[of st1] Inr r pretrain_loop_logged[of c sk em el n st1 "[loss]"]
      by (simp split: sum.splits prod.splits)
  qed
qed

lemma pretrain_loop_length:
  "pretrain_loop c sk em el n st [] = Inr (st', l) \<Longrightarrow> length l = n"
proof (induction n arbitrary: st' l)
  case 0
  then show ?case by simp
next
  case (Suc n)
  then show ?case
    unfolding pretrain_loop_snoc by (auto split: sum.splits prod.splits)
qed

lemma pretrain_loop_prefix:
  assumes "pretrain_loop c sk em el n st [] = Inr (st_n, l)" and "t < n"
  shows "\<exists>st_t st' . pretrain_loop c sk em el t st [] = Inr (st_t, take t l)
           \<and> iteration c sk em el st_t = Inr (st', l ! t)"
  using assms
proof (induction n arbitrary: st_n l)
  case 0
  then show ?case by simp
next
  case (Suc n)
  from Suc.prems(1) obtain st1 l1 loss where
    run: "pretrain_loop c sk em el n st [] = Inr (st1, l1)"
    and it: "iteration c sk em el st1 = Inr (st_n, loss)" and l: "l = l1 @ [loss]"
    unfolding pretrain_loop_snoc by (auto split: sum.splits prod.splits)
  have len: "length l1 = n" using run by (rule pretrain_loop_length)
  show ?case
  proof (cases "t < n")
    case True
    from Suc.IH[OF run True] show ?thesis using l len True by (simp add: nth_append)
  next
    case False
    then have "t = n" using Suc.prems(2) by simp
    then show ?thesis using run it l len by (auto simp: nth_append)
  qed
qed

lemma replicas_params:
  assumes "replicas ds t0s t1s ps ss ks ls = Inr ws"
  shows "map r_params ws = ps"
proof -
  from assms have ws: "ws = map (\<lambda>w. \<lparr>r_data = ds ! w, r_target = (t0s ! w, t1s ! w), r_params = ps ! w,
                              r_state = ss ! w, r_key = ks ! w, r_logprob = ls ! w\<rparr>) [0..<length ds]"
    and len: "length ps = length ds"
    by (auto simp: replicas_def Let_def split: if_splits)
  have "map ((!) ps) [0..<length ps] = ps" by (rule map_nth)
  then show ?thesis unfolding ws using len by (simp add: comp_def)
qed

lemma step_inputs_params:
  assumes "step_inputs sk em el st = Inr ws"
  shows "map r_params ws = ls_params st"
  using assms unfolding step_inputs_def Let_def
  by (auto split: sum.splits dest: replicas_params)

lemma pretrain_step_loss:
  assumes "pretrain_step c ws = Inr outs" and "r \<in> set outs"
  shows "loss_fn c ws = Inr (loss_val r)"
proof -
  from assms(1) obtain loss where l: "loss_fn c ws = Inr loss"
    and outs: "outs = map (\<lambda>w.
            case optimizer_update c
                   (pmean_tree c (map (\<lambda>w. grad_loss c (r_data w) (r_params w) (r_target w)) ws))
                   (r_state w) (r_params w) of
              (updates, state) \<Rightarrow>
            let params = apply_updates c (r_params w) updates in
            case mh_update c params (batch_network c) (r_data w) (r_key w) (r_logprob w) 0 of
              (data, key, logprob, pmove) \<Rightarrow>
            \<lparr>new_data = data, new_params = params, new_state = state, loss_val = loss,
             new_logprob = logprob\<rparr>) ws"
    by (rule pretrain_step_Inr)
  have "loss_val r = loss"
    using assms(2) unfolding outs by (auto simp: Let_def split: prod.splits)
  then show ?thesis using l by simp
qed

lemma iteration_loss:
  assumes "iteration c sk em el st = Inr (st', loss)"
  shows "\<exists>ws. step_inputs sk em el st = Inr ws \<and> map r_params ws = ls_params st
            \<and> loss_fn c ws = Inr loss"
proof -
  from assms obtain ws outs first rest where
    ws: "step_inputs sk em el st = Inr ws" and step: "pretrain_step c ws = Inr outs"
    and outs: "outs = first # rest" and loss: "loss = loss_val first"
    unfolding iteration_def Let_def by (auto split: sum.splits list.splits)
  have "loss_fn c ws = Inr (loss_val first)"
    using step by (rule pretrain_step_loss) (simp add: outs)
  then show ?thesis using ws step_inputs_params[OF ws] loss by simp
qed


lemmas sample_run_defs = pretrain_hartree_fock_def step_inputs_def initial_state_def eval_orbitals_def
  copy_unless_ndarray_def np_reshape_def slice_last2_def sample_mos_def pointwise_mos_def points_def
  replicas_def unstack_def stack_def sample_library_def sample_network_def sample_molecule_def
  iteration_def pretrain_step_def loss_fn_def local_loss_def pmean_def driver_step_env_def
  batch_envelope_fn_def envelope_fn_def envelope_type_arg_def Let_def upt_rec numeral_2_eq_2

lemma sample_run:
  "pretrain_hartree_fock sample_library [1, 1]
     \<lparr>shape = [2, 1, 6], flat = [1, 2, 3, 4, 5, 6, 6, 5, 4, 3, 2, 1]\<rparr> sample_network [7, 8]
     sample_molecule (1, 1) sample_mos None False 2 =
   Inr (([7, 7], \<lparr>shape = [2, 1, 6],
                   flat = [23/2, 25/2, 27/2, 29/2, 31/2, 33/2, 33/2, 31/2, 29/2, 27/2, 25/2, 23/2]\<rparr>),
        [25, 37])"
  by (simp add: sample_run_defs)

text \<open>
  Claim C9. The loss a pretrain step returns on every worker is the loss function at the
  arguments the step received, so at the parameters before the update. In a run of the
  driver the loss logged at iteration \<open>t\<close> is therefore the loss at the parameters the loop
  holds after \<open>t\<close> iterations, before the update of iteration \<open>t\<close>, with the targets evaluated
  at the walkers of that moment.
\<close>

theorem logged_loss_is_pre_update:
  "(pretrain_step c ws = Inr outs \<longrightarrow> (\<forall>r\<in>set outs. loss_fn c ws = Inr (loss_val r)))
   \<and> (pretrain_hartree_fock lib params data network sharded_key molecule electrons eval_mos
         envelope_type fd n = Inr (result, logged) \<and> t < n \<longrightarrow>
       (\<exists>st_t ws_t.
          pretrain_loop
            (driver_step_env lib network molecule electrons (envelope_type_arg envelope_type) fd)
            (p_split lib) eval_mos electrons t
            (initial_state lib params data network sharded_key) [] = Inr (st_t, take t logged)
          \<and> step_inputs (p_split lib) eval_mos electrons st_t = Inr ws_t
          \<and> map r_params ws_t = ls_params st_t
          \<and> loss_fn
               (driver_step_env lib network molecule electrons (envelope_type_arg envelope_type) fd)
               ws_t = Inr (logged ! t)))"
proof (intro conjI impI)
  assume "pretrain_step c ws = Inr outs"
  then show "\<forall>r\<in>set outs. loss_fn c ws = Inr (loss_val r)"
    by (auto dest: pretrain_step_loss)
next
  let ?c = "driver_step_env lib network molecule electrons (envelope_type_arg envelope_type) fd"
  let ?st = "initial_state lib params data network sharded_key"
  assume a: "pretrain_hartree_fock lib params data network sharded_key molecule electrons eval_mos
         envelope_type fd n = Inr (result, logged) \<and> t < n"
  then obtain st_n where run: "pretrain_loop ?c (p_split lib) eval_mos electrons n ?st [] = Inr (st_n, logged)"
    unfolding pretrain_hartree_fock_def Let_def by (auto split: if_splits sum.splits)
  from pretrain_loop_prefix[OF run] a obtain st_t st' where
    t: "pretrain_loop ?c (p_split lib) eval_mos electrons t ?st [] = Inr (st_t, take t logged)"
    and it: "iteration ?c (p_split lib) eval_mos electrons st_t = Inr (st', logged ! t)"
    by blast
  from iteration_loss[OF it] t
  show "\<exists>st_t ws_t.
          pretrain_loop ?c (p_split lib) eval_mos electrons t ?st [] = Inr (st_t, take t logged)
          \<and> step_inputs (p_split lib) eval_mos electrons st_t = Inr ws_t
          \<and> map r_params ws_t = ls_params st_t
          \<and> loss_fn ?c ws_t = Inr (logged ! t)"
    by blast
qed

theorem logged_loss_is_pre_update_witness:
  "pretrain_step sample_env sample_workers = Inr sample_results
   \<and> loss_fn sample_env sample_workers = Inr (loss_val (sample_results ! 0))
   \<and> loss_fn sample_env sample_workers = Inr (loss_val (sample_results ! 1))
   \<and> loss_fn sample_env (map (\<lambda>w. w\<lparr>r_params := 6\<rparr>) sample_workers) = Inr 10
   \<and> pretrain_hartree_fock sample_library [1, 1]
        \<lparr>shape = [2, 1, 6], flat = [1, 2, 3, 4, 5, 6, 6, 5, 4, 3, 2, 1]\<rparr> sample_network [7, 8]
        sample_molecule (1, 1) sample_mos None False 2 =
      Inr (([7, 7], \<lparr>shape = [2, 1, 6],
                      flat = [23/2, 25/2, 27/2, 29/2, 31/2, 33/2, 33/2, 31/2, 29/2, 27/2, 25/2, 23/2]\<rparr>),
           [25, 37])
   \<and> (1 :: nat) < 2
   \<and> (\<exists>st_t ws_t.
          pretrain_loop (driver_step_env sample_library sample_network sample_molecule (1, 1)
                           (envelope_type_arg None) False)
            (p_split sample_library) sample_mos (1, 1) 1
            (initial_state sample_library [1, 1]
               \<lparr>shape = [2, 1, 6], flat = [1, 2, 3, 4, 5, 6, 6, 5, 4, 3, 2, 1]\<rparr> sample_network [7, 8])
            [] = Inr (st_t, take 1 [25, 37])
          \<and> step_inputs (p_split sample_library) sample_mos (1, 1) st_t = Inr ws_t
          \<and> map r_params ws_t = ls_params st_t
          \<and> loss_fn (driver_step_env sample_library sample_network sample_molecule (1, 1)
                        (envelope_type_arg None) False) ws_t = Inr ([25, 37] ! 1))"
proof -
  note claim = logged_loss_is_pre_update[of sample_env sample_workers
      sample_results
      sample_library "[1, 1]" "\<lparr>shape = [2, 1, 6], flat = [1, 2, 3, 4, 5, 6, 6, 5, 4, 3, 2, 1]\<rparr>"
      sample_network "[7, 8]" sample_molecule "(1, 1)" sample_mos None False 2
      "([7, 7], \<lparr>shape = [2, 1, 6],
                 flat = [23/2, 25/2, 27/2, 29/2, 31/2, 33/2, 33/2, 31/2, 29/2, 27/2, 25/2, 23/2]\<rparr>)"
      "[25, 37]" 1]
  have later: "loss_fn sample_env (map (\<lambda>w. w\<lparr>r_params := 6\<rparr>) sample_workers) = Inr 10"
    by (simp add: loss_fn_def local_loss_def sample_env_simps sample_workers_def unstack_def
        pmean_def Let_def)
  have members: "sample_results ! 0 \<in> set sample_results" "sample_results ! 1 \<in> set sample_results"
    by (simp_all add: sample_results_def)
  have "(1 :: nat) < 2" by simp
  with claim sample_step sample_run later members show ?thesis by blast
qed

section \<open>Properties of the envelope selection\<close>

lemma envelope_fn_else:
  "envelope_type \<noteq> ''exact_cusp'' \<Longrightarrow> envelope_type \<noteq> ''output''
     \<Longrightarrow> envelope_fn lib atoms charges electrons envelope_type = (\<lambda>p x. 0)"
  by (simp add: envelope_fn_def)

text \<open>
  Claim C7. For every \<^verbatim>\<open>envelope_type\<close> other than \<^verbatim>\<open>'exact_cusp'\<close> and \<^verbatim>\<open>'output'\<close>, the
  envelope function the driver selects returns exactly 0.0 for all parameters and all
  positions, whatever the envelope forms of the network module are; the batched function
  handed to the step returns 0.0 for every walker, and the factor \<open>exp (0 / n)\<close> the loss
  applies to the orbitals is 1.
\<close>

theorem envelope_fn_other_is_zero:
  "envelope_type \<noteq> ''exact_cusp'' \<and> envelope_type \<noteq> ''output'' \<longrightarrow>
     envelope_fn lib atoms charges electrons envelope_type p x = 0
     \<and> batch_envelope_fn lib atoms charges electrons envelope_type p xs
         = replicate (length (unstack xs)) 0
     \<and> exp (envelope_fn lib atoms charges electrons envelope_type p x / real n) = 1"
  by (simp add: envelope_fn_else batch_envelope_fn_def map_replicate_const)

theorem envelope_fn_other_is_zero_witness:
  "''none'' \<noteq> ''exact_cusp'' \<and> ''none'' \<noteq> ''output''
   \<and> envelope_fn sample_library (zeros [2, 3]) (zeros [2]) (1, 1) ''none'' 5
        \<lparr>shape = [6], flat = [1, 2, 3, 4, 5, 6]\<rparr> = 0
   \<and> batch_envelope_fn sample_library (zeros [2, 3]) (zeros [2]) (1, 1) ''none'' 5
        \<lparr>shape = [2, 3], flat = [1, 2, 3, 4, 5, 6]\<rparr> = [0, 0]"
  using envelope_fn_other_is_zero[of "''none''" sample_library "zeros [2, 3]" "zeros [2]" "(1, 1)" 5
      "\<lparr>shape = [6], flat = [1, 2, 3, 4, 5, 6]\<rparr>"
      "\<lparr>shape = [2, 3], flat = [1, 2, 3, 4, 5, 6]\<rparr>" 2]
  by (simp add: unstack_def numeral_2_eq_2)

text \<open>
  Claim C10. A call of the driver that leaves \<^verbatim>\<open>envelope_type\<close> out runs with \<^verbatim>\<open>'full'\<close>,
  which is neither \<^verbatim>\<open>'exact_cusp'\<close> nor \<^verbatim>\<open>'output'\<close>; the envelope function selected is the
  constant 0.0, and so is the batched envelope of the step environment the driver builds.
\<close>

theorem default_envelope_is_zero:
  "envelope_type_arg None = ''full''
   \<and> ''full'' \<noteq> ''exact_cusp'' \<and> ''full'' \<noteq> ''output''
   \<and> envelope_fn lib atoms charges electrons (envelope_type_arg None) p x = 0
   \<and> batch_envelope (driver_step_env lib network molecule electrons (envelope_type_arg None) fd)
        p xs = replicate (length (unstack xs)) 0"
  by (simp add: envelope_type_arg_def envelope_fn_else driver_step_env_def Let_def
      batch_envelope_fn_def map_replicate_const)


end
